theory Spec2Isabelle
  imports Main
begin

section \<open>Data model\<close>

text \<open>
  One row of the table \<open>work_items\<close> (\<open>initialize_db\<close>): \<open>Id INTEGER PRIMARY KEY\<close>
  and seven nullable \<open>TEXT\<close> columns. The column \<open>Id\<close> is called \<open>Id_col\<close> here,
  since \<open>Id\<close> is the identity relation of HOL.
\<close>

record work_item =
  Id_col :: int
  WorkItemType :: "string option"
  Title :: "string option"
  AssignedTo :: "string option"
  State :: "string option"
  Tags :: "string option"
  StartDate :: "string option"
  TargetDate :: "string option"

text \<open>
  The table is the list of its rows in the order of a table scan; a data frame is a list
  of rows as well. \<open>Id\<close> is the rowid of the table, so SQLite scans it in ascending
  \<open>Id\<close> order, one row per \<open>Id\<close>.
\<close>

type_synonym table = "work_item list"
type_synonym dataframe = "work_item list"

definition table_ok :: "table \<Rightarrow> bool" where
  "table_ok db = (sorted (map Id_col db) \<and> distinct (map Id_col db))"

text \<open>
  The value of \<open>System.AssignedTo\<close> in a detail response: missing, a plain text, or an
  identity object with a \<open>displayName\<close>.
\<close>

datatype assigned_value = NoValue | PlainValue string | IdentityRef string

text \<open>
  The \<open>fields\<close> object of a detail response, restricted to \<open>FIELDS_TO_DISPLAY\<close>.
  \<open>System.Id\<close> is read from the response, not from the request.
\<close>

record fields =
  System_Id :: int
  System_WorkItemType :: "string option"
  System_Title :: "string option"
  System_AssignedTo :: assigned_value
  System_State :: "string option"
  System_Tags :: "string option"
  Scheduling_StartDate :: "string option"
  Scheduling_TargetDate :: "string option"

text \<open>What makes a request raise inside its \<open>try\<close> block.\<close>

datatype http_error = ConnectionError | HTTPError nat | BadPayload

text \<open>
  The remote service, as the two requests of the program see it: the answer to the WIQL
  query (the list of the \<open>id\<close>s of \<open>workItems\<close>) and the answer to the detail request for
  one identifier.
\<close>

record remote =
  wiql_response :: "http_error + int list"
  workitem_response :: "int \<Rightarrow> http_error + fields"

text \<open>The effects of a run, in the order in which they happen.\<close>

datatype event =
    Wiql_post
  | St_error http_error
  | Workitem_get int
  | St_warning int http_error
  | Info_no_new
  | Info_downloading nat
  | Sleep nat
  | Placeholder_empty
  | Db_delete "int set"
  | Db_insert_or_replace work_item

section \<open>The local cache\<close>

definition load_data_from_db :: "table \<Rightarrow> dataframe" where
  "load_data_from_db db = db"

definition load_ids_from_db :: "table \<Rightarrow> int set" where
  "load_ids_from_db db = set (map Id_col db)"

definition delete_ids_from_db :: "int set \<Rightarrow> table \<Rightarrow> table \<times> event list" where
  "delete_ids_from_db ids_to_delete db =
     (if ids_to_delete = {} then (db, [])
      else (filter (\<lambda>r. Id_col r \<notin> ids_to_delete) db, [Db_delete ids_to_delete]))"

text \<open>
  \<open>INSERT OR REPLACE\<close>: the row in conflict on the primary key is deleted, then the
  new row is inserted at the place of its rowid.
\<close>

definition insert_or_replace :: "work_item \<Rightarrow> table \<Rightarrow> table" where
  "insert_or_replace row db =
     insort_key Id_col row (filter (\<lambda>r. Id_col r \<noteq> Id_col row) db)"

fun save_data_to_db :: "dataframe \<Rightarrow> table \<Rightarrow> table \<times> event list" where
  "save_data_to_db [] db = (db, [])"
| "save_data_to_db (row # df) db =
     (let (db', evs) = save_data_to_db df (insert_or_replace row db)
      in (db', Db_insert_or_replace row # evs))"

section \<open>The remote requests\<close>

definition get_work_item_ids_from_devops :: "remote \<Rightarrow> int list \<times> event list" where
  "get_work_item_ids_from_devops rm =
     (case wiql_response rm of
        Inr work_item_ids \<Rightarrow> (work_item_ids, [Wiql_post])
      | Inl e \<Rightarrow> ([], [Wiql_post, St_error e]))"

text \<open>
  The row built from the fields of a response: the display name of an identity, the
  value itself otherwise; the column is the part of the field name after the last dot.
\<close>

definition row_data :: "fields \<Rightarrow> work_item" where
  "row_data item_fields =
     \<lparr> Id_col = System_Id item_fields,
       WorkItemType = System_WorkItemType item_fields,
       Title = System_Title item_fields,
       AssignedTo =
         (case System_AssignedTo item_fields of
            IdentityRef displayName \<Rightarrow> Some displayName
          | PlainValue v \<Rightarrow> Some v
          | NoValue \<Rightarrow> None),
       State = System_State item_fields,
       Tags = System_Tags item_fields,
       StartDate = Scheduling_StartDate item_fields,
       TargetDate = Scheduling_TargetDate item_fields \<rparr>"

fun get_work_items_details_from_devops :: "remote \<Rightarrow> int list \<Rightarrow> dataframe \<times> event list" where
  "get_work_items_details_from_devops rm [] = ([], [])"
| "get_work_items_details_from_devops rm (work_item_id # work_item_ids) =
     (let (work_items_data, evs) = get_work_items_details_from_devops rm work_item_ids
      in case workitem_response rm work_item_id of
           Inr item_fields \<Rightarrow>
             (row_data item_fields # work_items_data, Workitem_get work_item_id # evs)
         | Inl e \<Rightarrow>
             (work_items_data, Workitem_get work_item_id # St_warning work_item_id e # evs))"

section \<open>The reconciliation\<close>

text \<open>
  \<open>drop_duplicates(subset=["Id"])\<close> with the default \<open>keep="first"\<close>: a row is dropped
  when a row before it has the same \<open>Id\<close>.
\<close>

fun drop_duplicates_seen :: "int set \<Rightarrow> dataframe \<Rightarrow> dataframe" where
  "drop_duplicates_seen seen [] = []"
| "drop_duplicates_seen seen (row # df) =
     (if Id_col row \<in> seen then drop_duplicates_seen seen df
      else row # drop_duplicates_seen (insert (Id_col row) seen) df)"

definition drop_duplicates :: "dataframe \<Rightarrow> dataframe" where
  "drop_duplicates df = drop_duplicates_seen {} df"

text \<open>What a run gives: the data frame returned, the table left behind, the effects.\<close>

record outcome =
  returned :: dataframe
  cache :: table
  events :: "event list"

definition get_updated_work_items :: "remote \<Rightarrow> table \<Rightarrow> outcome" where
  "get_updated_work_items rm db =
     (let (all_ids, evs_ids) = get_work_item_ids_from_devops rm in
      if all_ids = [] then \<lparr> returned = [], cache = db, events = evs_ids \<rparr>
      else
        let existing_ids = load_ids_from_db db;
            ids_to_delete = existing_ids - set all_ids;
            (db1, evs_del) = delete_ids_from_db ids_to_delete db;
            new_ids = filter (\<lambda>wid. wid \<notin> existing_ids) all_ids
        in
          if new_ids = [] then
            \<lparr> returned = load_data_from_db db1, cache = db1,
              events = evs_ids @ evs_del @ [Info_no_new, Sleep 4, Placeholder_empty] \<rparr>
          else
            let (new_data, evs_get) = get_work_items_details_from_devops rm new_ids in
            if new_data = [] then
              \<lparr> returned = load_data_from_db db1, cache = db1,
                events = evs_ids @ evs_del @ [Info_downloading (length new_ids)] @ evs_get
                           @ [Placeholder_empty] \<rparr>
            else
              let old_data = load_data_from_db db1;
                  combined_data = drop_duplicates (old_data @ new_data);
                  (db2, evs_save) = save_data_to_db combined_data db1
              in \<lparr> returned = combined_data, cache = db2,
                   events = evs_ids @ evs_del @ [Info_downloading (length new_ids)] @ evs_get
                              @ evs_save @ [Placeholder_empty] \<rparr>)"

text \<open>The lookup of a row by its key, and the parts of a run's effects.\<close>

definition lookup_row :: "table \<Rightarrow> int \<Rightarrow> work_item option" where
  "lookup_row db i = find (\<lambda>r. Id_col r = i) db"

fun is_detail_call :: "event \<Rightarrow> bool" where
  "is_detail_call (Workitem_get i) = True"
| "is_detail_call e = False"

fun is_db_write :: "event \<Rightarrow> bool" where
  "is_db_write (Db_insert_or_replace r) = True"
| "is_db_write e = False"


section \<open>Notions the properties are stated with\<close>

text \<open>
  The detail request for identifier \<open>i\<close> succeeds: it raises nothing and answers with the
  record of \<open>i\<close>, that is, \<open>System.Id\<close> of the answer is \<open>i\<close>.
\<close>

definition fetch_ok :: "remote \<Rightarrow> int \<Rightarrow> bool" where
  "fetch_ok rm i = (case workitem_response rm i of Inl e \<Rightarrow> False | Inr f \<Rightarrow> System_Id f = i)"

text \<open>The detail request for \<open>i\<close> fails, or answers with the record of \<open>i\<close>.\<close>

definition carries_requested_id :: "remote \<Rightarrow> int \<Rightarrow> bool" where
  "carries_requested_id rm i =
     (case workitem_response rm i of Inl e \<Rightarrow> True | Inr f \<Rightarrow> System_Id f = i)"

text \<open>The rows a run fetches: \<open>new_data\<close> of \<open>get_updated_work_items\<close>.\<close>

definition new_data_of :: "remote \<Rightarrow> int list \<Rightarrow> table \<Rightarrow> dataframe" where
  "new_data_of rm R db =
     fst (get_work_items_details_from_devops rm (filter (\<lambda>wid. wid \<notin> load_ids_from_db db) R))"

section \<open>Example data\<close>

text \<open>
  A cached row and a remote answer with a title and nothing else, and a remote service
  that answers the listing with \<open>listing\<close>, fails the detail request of the identifiers
  in \<open>failing\<close> and answers every other detail request with the record asked for.
\<close>

definition titled :: "int \<Rightarrow> string \<Rightarrow> work_item" where
  "titled i t = \<lparr> Id_col = i, WorkItemType = None, Title = Some t, AssignedTo = None,
     State = None, Tags = None, StartDate = None, TargetDate = None \<rparr>"

definition answer :: "int \<Rightarrow> string \<Rightarrow> fields" where
  "answer i t = \<lparr> System_Id = i, System_WorkItemType = None, System_Title = Some t,
     System_AssignedTo = NoValue, System_State = None, System_Tags = None,
     Scheduling_StartDate = None, Scheduling_TargetDate = None \<rparr>"

definition remote_serving :: "http_error + int list \<Rightarrow> int list \<Rightarrow> remote" where
  "remote_serving listing failing =
     \<lparr> wiql_response = listing,
       workitem_response =
         (\<lambda>i. if i \<in> set failing then Inl (HTTPError 500) else Inr (answer i ''remote title'')) \<rparr>"

section \<open>The cache operations\<close>

lemma delete_filter: "fst (delete_ids_from_db S db) = filter (\<lambda>r. Id_col r \<notin> S) db"
  by (simp add: delete_ids_from_db_def)

lemma delete_events: "snd (delete_ids_from_db S db) = (if S = {} then [] else [Db_delete S])"
  by (simp add: delete_ids_from_db_def)

lemma find_insort_other: "\<not> P r \<Longrightarrow> find P (insort_key f r xs) = find P xs"
  by (induction xs) auto

lemma find_insort_new: "P r \<Longrightarrow> \<forall>x\<in>set xs. \<not> P x \<Longrightarrow> find P (insort_key f r xs) = Some r"
  by (induction xs) auto

lemma find_filter_other: "\<forall>x. P x \<longrightarrow> Q x \<Longrightarrow> find P (filter Q xs) = find P xs"
  by (induction xs) auto

lemma lookup_insert_or_replace:
  "lookup_row (insert_or_replace r db) i = (if Id_col r = i then Some r else lookup_row db i)"
  by (auto simp: lookup_row_def insert_or_replace_def find_insort_other find_insort_new find_filter_other)

lemma ids_insert_or_replace:
  "load_ids_from_db (insert_or_replace r db) = insert (Id_col r) (load_ids_from_db db)"
  by (auto simp: load_ids_from_db_def insert_or_replace_def set_insort_key)

lemma ids_save:
  "load_ids_from_db (fst (save_data_to_db df db)) = load_ids_from_db db \<union> Id_col ` set df"
  by (induction df arbitrary: db) (auto simp: ids_insert_or_replace split_beta)

lemma find_append_first: "find P xs = Some x \<Longrightarrow> find P (xs @ ys) = Some x"
  by (induction xs) (auto split: if_splits)

lemma find_None_ids: "find (\<lambda>r. Id_col r = i) df = None \<longleftrightarrow> i \<notin> Id_col ` set df"
  by (induction df) auto

lemma lookup_save:
  "distinct (map Id_col df) \<Longrightarrow>
   lookup_row (fst (save_data_to_db df db)) i =
     (case find (\<lambda>r. Id_col r = i) df of Some r \<Rightarrow> Some r | None \<Rightarrow> lookup_row db i)"
proof (induction df arbitrary: db)
  case Nil
  then show ?case by simp
next
  case (Cons row df)
  then have "i = Id_col row \<Longrightarrow> find (\<lambda>r. Id_col r = i) df = None"
    by (simp add: find_None_ids)
  with Cons show ?case
    by (auto simp: lookup_insert_or_replace split_beta split: option.splits)
qed

lemma table_ok_insert_or_replace: "table_ok db \<Longrightarrow> table_ok (insert_or_replace r db)"
  by (auto simp: table_ok_def insert_or_replace_def sorted_insort_key distinct_insort_key
      sorted_filter distinct_map_filter)

lemma table_ok_save: "table_ok db \<Longrightarrow> table_ok (fst (save_data_to_db df db))"
  by (induction df arbitrary: db) (auto simp: table_ok_insert_or_replace split_beta)

lemma table_ok_filter: "table_ok db \<Longrightarrow> table_ok (filter P db)"
  by (auto simp: table_ok_def sorted_filter distinct_map_filter)

lemma save_events: "snd (save_data_to_db df db) = map Db_insert_or_replace df"
  by (induction df arbitrary: db) (auto simp: split_beta)

lemma ids_drop_duplicates_seen:
  "Id_col ` set (drop_duplicates_seen seen df) = Id_col ` set df - seen"
  by (induction df arbitrary: seen) auto

lemma drop_duplicates_seen_not_seen:
  "x \<in> set (drop_duplicates_seen seen df) \<Longrightarrow> Id_col x \<notin> seen"
  by (induction df arbitrary: seen) (auto split: if_splits)

lemma distinct_drop_duplicates_seen: "distinct (map Id_col (drop_duplicates_seen seen df))"
  by (induction df arbitrary: seen) (auto dest: drop_duplicates_seen_not_seen)

lemma find_drop_duplicates_seen:
  "find (\<lambda>r. Id_col r = i) (drop_duplicates_seen seen df) =
     (if i \<in> seen then None else find (\<lambda>r. Id_col r = i) df)"
  by (induction df arbitrary: seen) auto

lemma details_events_get:
  "Workitem_get i \<in> set (snd (get_work_items_details_from_devops rm ids)) \<longleftrightarrow> i \<in> set ids"
  by (induction ids) (auto simp: split_beta split: sum.splits)


lemma details_ids:
  "\<forall>i\<in>set ids. carries_requested_id rm i \<Longrightarrow>
   Id_col ` set (fst (get_work_items_details_from_devops rm ids)) =
     {i \<in> set ids. \<not> isl (workitem_response rm i)}"
  by (induction ids) (auto simp: carries_requested_id_def row_data_def simp: split_beta split: sum.splits)

section \<open>The run, case by case\<close>

lemma run_cache:
  assumes "wiql_response rm = Inr R" "R \<noteq> []"
  shows "cache (get_updated_work_items rm db) =
     (let db1 = filter (\<lambda>r. Id_col r \<in> set R) db; new_data = new_data_of rm R db
      in if new_data = [] then db1 else fst (save_data_to_db (drop_duplicates (db1 @ new_data)) db1))"
proof -
  have "filter (\<lambda>r. Id_col r \<notin> load_ids_from_db db - set R) db = filter (\<lambda>r. Id_col r \<in> set R) db"
    by (rule filter_cong) (auto simp: load_ids_from_db_def)
  then have "fst (delete_ids_from_db (load_ids_from_db db - set R) db) = filter (\<lambda>r. Id_col r \<in> set R) db"
    by (simp add: delete_filter)
  with assms show ?thesis
    by (auto simp: get_updated_work_items_def get_work_item_ids_from_devops_def new_data_of_def
        load_data_from_db_def Let_def split: prod.splits)
qed

lemma run_ids:
  assumes "wiql_response rm = Inr R" "R \<noteq> []"
  shows "load_ids_from_db (cache (get_updated_work_items rm db)) =
     (load_ids_from_db db \<inter> set R) \<union> Id_col ` set (new_data_of rm R db)"
proof -
  let ?db1 = "filter (\<lambda>r. Id_col r \<in> set R) db"
  let ?nd = "new_data_of rm R db"
  have a: "load_ids_from_db ?db1 = load_ids_from_db db \<inter> set R"
    by (auto simp: load_ids_from_db_def)
  have b: "Id_col ` set (drop_duplicates (?db1 @ ?nd)) = load_ids_from_db ?db1 \<union> Id_col ` set ?nd"
    by (simp add: drop_duplicates_def ids_drop_duplicates_seen load_ids_from_db_def image_Un)
  show ?thesis
  proof (cases "?nd = []")
    case True
    then show ?thesis
      unfolding run_cache [OF assms] Let_def by (simp add: a)
  next
    case False
    then have "cache (get_updated_work_items rm db) =
        fst (save_data_to_db (drop_duplicates (?db1 @ ?nd)) ?db1)"
      unfolding run_cache [OF assms] Let_def by simp
    then show ?thesis
      unfolding ids_save b a by (simp only: ids_save b a) blast
  qed
qed

lemma new_data_ids:
  assumes "\<forall>i\<in>set R - load_ids_from_db db. carries_requested_id rm i"
  shows "Id_col ` set (new_data_of rm R db) =
     {i \<in> set R - load_ids_from_db db. \<not> isl (workitem_response rm i)}"
  unfolding new_data_of_def using assms by (subst details_ids) auto

lemma run_lookup_kept:
  assumes "wiql_response rm = Inr R" "i \<in> set R" "i \<in> load_ids_from_db db"
  shows "lookup_row (cache (get_updated_work_items rm db)) i = lookup_row db i"
proof -
  let ?db1 = "filter (\<lambda>r. Id_col r \<in> set R) db"
  from assms have R: "R \<noteq> []" by auto
  have l1: "lookup_row ?db1 i = lookup_row db i"
    using assms(2) unfolding lookup_row_def by (intro find_filter_other) auto
  have "i \<in> Id_col ` set ?db1"
    using assms by (auto simp: load_ids_from_db_def)
  then obtain r where r: "find (\<lambda>r. Id_col r = i) ?db1 = Some r"
    using find_None_ids [of i ?db1] by (cases "find (\<lambda>r. Id_col r = i) ?db1") auto
  have "lookup_row (fst (save_data_to_db (drop_duplicates (?db1 @ nd)) ?db1)) i = lookup_row ?db1 i" for nd
  proof -
    have "find (\<lambda>r. Id_col r = i) (drop_duplicates (?db1 @ nd)) = Some r"
      by (simp add: drop_duplicates_def find_drop_duplicates_seen find_append_first [OF r])
    moreover have "lookup_row ?db1 i = Some r"
      by (simp add: lookup_row_def r)
    moreover have "distinct (map Id_col (drop_duplicates (?db1 @ nd)))"
      by (simp add: drop_duplicates_def distinct_drop_duplicates_seen)
    ultimately show ?thesis
      by (simp add: lookup_save)
  qed
  then show ?thesis
    unfolding run_cache [OF assms(1) R] Let_def by (simp add: l1)
qed

lemma run_events:
  assumes "wiql_response rm = Inr R" "R \<noteq> []"
  shows "events (get_updated_work_items rm db) =
     (let L = load_ids_from_db db; new_ids = filter (\<lambda>wid. wid \<notin> L) R;
          db1 = filter (\<lambda>r. Id_col r \<in> set R) db; new_data = new_data_of rm R db
      in Wiql_post # (if L - set R = {} then [] else [Db_delete (L - set R)]) @
         (if new_ids = [] then [Info_no_new, Sleep 4, Placeholder_empty]
          else Info_downloading (length new_ids) # snd (get_work_items_details_from_devops rm new_ids) @
               (if new_data = [] then [] else map Db_insert_or_replace (drop_duplicates (db1 @ new_data))) @
               [Placeholder_empty]))"
proof -
  have "filter (\<lambda>r. Id_col r \<notin> load_ids_from_db db - set R) db = filter (\<lambda>r. Id_col r \<in> set R) db"
    by (rule filter_cong) (auto simp: load_ids_from_db_def)
  then have "fst (delete_ids_from_db (load_ids_from_db db - set R) db) = filter (\<lambda>r. Id_col r \<in> set R) db"
    by (simp add: delete_filter)
  with assms show ?thesis
    by (simp add: get_updated_work_items_def get_work_item_ids_from_devops_def new_data_of_def
        load_data_from_db_def Let_def split_beta delete_events save_events)
qed

section \<open>Example data, evaluated\<close>

lemma row_data_answer [simp]: "row_data (answer i t) = titled i t"
  by (simp add: row_data_def answer_def titled_def)

lemma System_Id_answer [simp]: "System_Id (answer i t) = i"
  by (simp add: answer_def)

lemma Id_col_titled [simp]: "Id_col (titled i t) = i"
  by (simp add: titled_def)

lemma titled_eq [simp]: "titled i t = titled j u \<longleftrightarrow> i = j \<and> t = u"
  by (auto simp: titled_def)

lemma remote_serving_sel [simp]:
  "wiql_response (remote_serving listing failing) = listing"
  "workitem_response (remote_serving listing failing) i =
     (if i \<in> set failing then Inl (HTTPError 500) else Inr (answer i ''remote title''))"
  by (simp_all add: remote_serving_def)

lemmas run_simps = get_updated_work_items_def get_work_item_ids_from_devops_def
  load_ids_from_db_def delete_ids_from_db_def load_data_from_db_def drop_duplicates_def
  insert_or_replace_def lookup_row_def insert_Diff_if Let_def

lemma fetch_ok_iff: "fetch_ok rm i \<longleftrightarrow> carries_requested_id rm i \<and> \<not> isl (workitem_response rm i)"
  by (cases "workitem_response rm i") (simp_all add: fetch_ok_def carries_requested_id_def)


section \<open>More on the cache operations and the run\<close>



lemma filter_by_id:
  "distinct (map Id_col t) \<Longrightarrow>
   filter (\<lambda>r. Id_col r = i) t = (case find (\<lambda>r. Id_col r = i) t of None \<Rightarrow> [] | Some r \<Rightarrow> [r])"
proof (induction t)
  case Nil
  then show ?case by simp
next
  case (Cons x t)
  show ?case
  proof (cases "Id_col x = i")
    case True
    with Cons.prems have "i \<notin> Id_col ` set t" by simp
    then have "filter (\<lambda>r. Id_col r = i) t = []"
      unfolding filter_empty_conv by blast
    with True show ?thesis by simp
  next
    case False
    with Cons show ?thesis by simp
  qed
qed

lemma run_table_ok:
  assumes "table_ok db"
  shows "table_ok (cache (get_updated_work_items rm db))"
proof (cases "fst (get_work_item_ids_from_devops rm) = []")
  case True
  with assms show ?thesis
    by (simp add: get_updated_work_items_def split_beta)
next
  case False
  then obtain R where R: "wiql_response rm = Inr R" "R \<noteq> []"
    by (cases "wiql_response rm") (auto simp: get_work_item_ids_from_devops_def)
  show ?thesis
    unfolding run_cache [OF R] Let_def
    using assms by (simp add: table_ok_filter table_ok_save)
qed


lemma run_nothing_new:
  assumes "wiql_response rm = Inr R" and "R \<noteq> []" and "set R \<subseteq> load_ids_from_db db"
  shows "get_updated_work_items rm db =
    \<lparr> returned = filter (\<lambda>r. Id_col r \<in> set R) db, cache = filter (\<lambda>r. Id_col r \<in> set R) db,
      events = Wiql_post #
        (if load_ids_from_db db - set R = {} then [] else [Db_delete (load_ids_from_db db - set R)]) @
        [Info_no_new, Sleep 4, Placeholder_empty] \<rparr>"
proof -
  have "filter (\<lambda>r. Id_col r \<notin> load_ids_from_db db - set R) db = filter (\<lambda>r. Id_col r \<in> set R) db"
    by (rule filter_cong) (auto simp: load_ids_from_db_def)
  then have d: "fst (delete_ids_from_db (load_ids_from_db db - set R) db) = filter (\<lambda>r. Id_col r \<in> set R) db"
    by (simp add: delete_filter)
  from assms(3) have n: "filter (\<lambda>wid. wid \<notin> load_ids_from_db db) R = []"
    by (auto simp: filter_empty_conv)
  from assms(1,2) show ?thesis
    by (simp add: get_updated_work_items_def get_work_item_ids_from_devops_def split_beta n d
        delete_events load_data_from_db_def)
qed



lemma run_detail_calls:
  assumes "wiql_response rm = Inr R"
  shows "Workitem_get i \<in> set (events (get_updated_work_items rm db)) \<longleftrightarrow>
         i \<in> set R \<and> i \<notin> load_ids_from_db db"
proof (cases "R = []")
  case True
  with assms show ?thesis
    by (simp add: get_updated_work_items_def get_work_item_ids_from_devops_def)
next
  case False
  show ?thesis
    unfolding run_events [OF assms False] Let_def
    by (auto simp: details_events_get filter_empty_conv)
qed

lemma carries_when_one_failed:
  assumes "workitem_response rm j = Inl e"
    and "\<forall>i\<in>set R - load_ids_from_db db - {j}. fetch_ok rm i"
  shows "\<forall>i\<in>set R - load_ids_from_db db. carries_requested_id rm i"
proof
  fix i assume i: "i \<in> set R - load_ids_from_db db"
  show "carries_requested_id rm i"
  proof (cases "i = j")
    case True
    with assms(1) show ?thesis by (simp add: carries_requested_id_def)
  next
    case False
    with i assms(2) show ?thesis by (simp add: fetch_ok_iff)
  qed
qed

lemma run_ids_one_failed:
  assumes "wiql_response rm = Inr R"
    and "j \<in> set R" and "j \<notin> load_ids_from_db db" and "workitem_response rm j = Inl e"
    and "\<forall>i\<in>set R - load_ids_from_db db - {j}. fetch_ok rm i"
  shows "load_ids_from_db (cache (get_updated_work_items rm db)) = set R - {j}"
proof -
  let ?L = "load_ids_from_db db"
  from assms(2) have R: "R \<noteq> []" by auto
  note c = carries_when_one_failed [OF assms(4,5)]
  have "{i \<in> set R - ?L. \<not> isl (workitem_response rm i)} = set R - ?L - {j}"
    using assms(4,5) by (auto simp: fetch_ok_iff)
  then have "Id_col ` set (new_data_of rm R db) = set R - ?L - {j}"
    by (simp only: new_data_ids [OF c])
  then show ?thesis
    unfolding run_ids [OF assms(1) R] using assms(3) by auto
qed

section \<open>The properties of the reconciliation\<close>




text \<open>
  C2. When the listing request fails, \<open>get_updated_work_items\<close> reports the error and
  stops: the table is the one it was, and the only effects are the request and the error
  message, so no row is deleted, inserted or replaced.
\<close>

theorem listing_failure_leaves_cache:
  "wiql_response rm = Inl e \<Longrightarrow>
   cache (get_updated_work_items rm db) = db \<and>
   events (get_updated_work_items rm db) = [Wiql_post, St_error e]"
  by (simp add: get_updated_work_items_def get_work_item_ids_from_devops_def)

theorem listing_failure_leaves_cache_witness:
  "wiql_response (remote_serving (Inl ConnectionError) []) = Inl ConnectionError \<and>
   cache (get_updated_work_items (remote_serving (Inl ConnectionError) [])
      [titled 1 ''a'', titled 2 ''b'']) = [titled 1 ''a'', titled 2 ''b''] \<and>
   events (get_updated_work_items (remote_serving (Inl ConnectionError) [])
      [titled 1 ''a'', titled 2 ''b'']) = [Wiql_post, St_error ConnectionError]"
proof -
  have h: "wiql_response (remote_serving (Inl ConnectionError) []) = Inl ConnectionError"
    by simp
  show ?thesis
    using h listing_failure_leaves_cache [OF h, of "[titled 1 ''a'', titled 2 ''b'']"] by simp
qed

text \<open>
  C3, for what the merge and the run keep. The merge step keeps one row for each identifier of the old and of the
  fetched rows. An identifier that is cached and still listed is not fetched again: after
  the run the cache holds for it the rows it held before, a single row with the cached
  title, whatever title the remote service has for it now.
\<close>

theorem merge_one_row_per_id_cached_title_kept:
  assumes "wiql_response rm = Inr R" and "i \<in> set R" and "i \<in> load_ids_from_db db"
    and "table_ok db"
  shows "distinct (map Id_col (drop_duplicates (old_data @ new_data))) \<and>
         Id_col ` set (drop_duplicates (old_data @ new_data)) =
           Id_col ` set old_data \<union> Id_col ` set new_data \<and>
         filter (\<lambda>r. Id_col r = i) (cache (get_updated_work_items rm db)) =
           filter (\<lambda>r. Id_col r = i) db"
proof -
  have "table_ok (cache (get_updated_work_items rm db))"
    using assms(4) by (rule run_table_ok)
  then have "filter (\<lambda>r. Id_col r = i) (cache (get_updated_work_items rm db)) =
      (case lookup_row (cache (get_updated_work_items rm db)) i of None \<Rightarrow> [] | Some r \<Rightarrow> [r])"
    unfolding lookup_row_def by (intro filter_by_id) (simp add: table_ok_def)
  moreover have "filter (\<lambda>r. Id_col r = i) db = (case lookup_row db i of None \<Rightarrow> [] | Some r \<Rightarrow> [r])"
    unfolding lookup_row_def using assms(4) by (intro filter_by_id) (simp add: table_ok_def)
  ultimately have "filter (\<lambda>r. Id_col r = i) (cache (get_updated_work_items rm db)) =
           filter (\<lambda>r. Id_col r = i) db"
    by (simp add: run_lookup_kept [OF assms(1-3)])
  then show ?thesis
    by (simp add: drop_duplicates_def distinct_drop_duplicates_seen ids_drop_duplicates_seen image_Un)
qed

text \<open>
  The newest fetch does not win: identifier 1 is cached with the title \<open>old title\<close>, the
  remote service now answers \<open>remote title\<close> for it, and after the run the cache still
  holds the old title; and the merge of an old row with a fetched row of the same
  identifier keeps the old row.
\<close>

theorem merge_newest_wins_counterexample:
  "workitem_response (remote_serving (Inr [1, 2]) []) 1 = Inr (answer 1 ''remote title'') \<and>
   lookup_row (cache (get_updated_work_items (remote_serving (Inr [1, 2]) [])
      [titled 1 ''old title''])) 1 = Some (titled 1 ''old title'') \<and>
   titled 1 ''old title'' \<noteq> row_data (answer 1 ''remote title'') \<and>
   drop_duplicates ([titled 1 ''old title''] @ [row_data (answer 1 ''remote title'')]) =
     [titled 1 ''old title'']"
  by (simp add: run_simps)

theorem merge_one_row_per_id_cached_title_kept_witness:
  "table_ok [titled 1 ''old title''] \<and>
   distinct (map Id_col (drop_duplicates ([titled 1 ''old title''] @ [titled 1 ''new'', titled 2 ''x'']))) \<and>
   filter (\<lambda>r. Id_col r = 1) (cache (get_updated_work_items (remote_serving (Inr [1, 2]) [])
      [titled 1 ''old title''])) = [titled 1 ''old title'']"
proof -
  have h: "table_ok [titled 1 ''old title'']"
    by (simp add: table_ok_def)
  show ?thesis
    using h merge_one_row_per_id_cached_title_kept [of "remote_serving (Inr [1, 2]) []" "[1, 2]" 1
        "[titled 1 ''old title'']" "[titled 1 ''old title'']" "[titled 1 ''new'', titled 2 ''x'']", OF _ _ _ h]
    by (simp add: load_ids_from_db_def)
qed



text \<open>
  C5, for a non-empty listing. When the listing succeeds with a non-empty list \<open>R\<close> and every detail
  request either fails or answers with the record asked for, the identifiers of the cache
  after the run are among those of \<open>R\<close>, whether or not detail requests fail.
\<close>

theorem sync_keys_subset_remote:
  assumes "wiql_response rm = Inr R" and "R \<noteq> []"
    and "\<forall>i\<in>set R - load_ids_from_db db. carries_requested_id rm i"
  shows "load_ids_from_db (cache (get_updated_work_items rm db)) \<subseteq> set R"
  unfolding run_ids [OF assms(1,2)] new_data_ids [OF assms(3)] by auto

text \<open>
  Stated for all \<open>R\<close>, the property fails at the empty listing: identifier 7 is cached,
  \<open>R\<close> is empty, and 7 is still cached after the run.
\<close>

theorem sync_keys_subset_empty_listing_counterexample:
  "wiql_response (remote_serving (Inr []) []) = Inr [] \<and>
   \<not> load_ids_from_db (cache (get_updated_work_items (remote_serving (Inr []) [])
        [titled 7 ''kept''])) \<subseteq> set []"
  by (simp add: run_simps)

theorem sync_keys_subset_remote_witness:
  "carries_requested_id (remote_serving (Inr [5, 4, 2, 4]) [4]) 5 \<and>
   carries_requested_id (remote_serving (Inr [5, 4, 2, 4]) [4]) 4 \<and>
   load_ids_from_db (cache (get_updated_work_items (remote_serving (Inr [5, 4, 2, 4]) [4])
      [titled 1 ''a'', titled 2 ''b'', titled 3 ''c''])) \<subseteq> set [5, 4, 2, 4]"
proof -
  have h: "\<forall>i\<in>set [5, 4, 2, 4] - load_ids_from_db [titled 1 ''a'', titled 2 ''b'', titled 3 ''c''].
      carries_requested_id (remote_serving (Inr [5, 4, 2, 4]) [4]) i"
    by (simp add: load_ids_from_db_def carries_requested_id_def)
  show ?thesis
    using sync_keys_subset_remote [of "remote_serving (Inr [5, 4, 2, 4]) [4]" "[5, 4, 2, 4]"
        "[titled 1 ''a'', titled 2 ''b'', titled 3 ''c'']", OF _ _ h]
    by (simp add: carries_requested_id_def)
qed



text \<open>
  C7, with the empty listing apart. When the listing succeeds with \<open>R\<close> and every identifier of \<open>R\<close> is
  cached, the run makes no detail request and inserts or replaces no row. For a non-empty
  \<open>R\<close> the cache keeps exactly its rows with an identifier of \<open>R\<close>, and the run returns
  these rows; for an empty \<open>R\<close> the cache is left as it is and the run returns the empty
  table.
\<close>

theorem nothing_to_fetch_no_calls_no_writes:
  assumes "wiql_response rm = Inr R" and "set R \<subseteq> load_ids_from_db db"
  shows "cache (get_updated_work_items rm db) =
           (if R = [] then db else filter (\<lambda>r. Id_col r \<in> set R) db) \<and>
         returned (get_updated_work_items rm db) =
           (if R = [] then [] else cache (get_updated_work_items rm db)) \<and>
         filter is_detail_call (events (get_updated_work_items rm db)) = [] \<and>
         filter is_db_write (events (get_updated_work_items rm db)) = []"
proof (cases "R = []")
  case True
  with assms(1) show ?thesis
    by (simp add: get_updated_work_items_def get_work_item_ids_from_devops_def)
next
  case False
  from run_nothing_new [OF assms(1) False assms(2)] show ?thesis
    using False by simp
qed

text \<open>
  That the cache is returned whenever nothing is to fetch fails at the empty listing: the cache holds a row and the run returns the empty table.
\<close>

theorem nothing_to_fetch_returns_cache_counterexample:
  "wiql_response (remote_serving (Inr []) []) = Inr [] \<and>
   set [] \<subseteq> load_ids_from_db [titled 1 ''a''] \<and>
   cache (get_updated_work_items (remote_serving (Inr []) []) [titled 1 ''a'']) = [titled 1 ''a''] \<and>
   returned (get_updated_work_items (remote_serving (Inr []) []) [titled 1 ''a'']) = [] \<and>
   returned (get_updated_work_items (remote_serving (Inr []) []) [titled 1 ''a'']) \<noteq>
     load_data_from_db (cache (get_updated_work_items (remote_serving (Inr []) []) [titled 1 ''a'']))"
  by (simp add: run_simps)

theorem nothing_to_fetch_no_calls_no_writes_witness:
  "set [2, 3] \<subseteq> load_ids_from_db [titled 1 ''a'', titled 2 ''b'', titled 3 ''c''] \<and>
   cache (get_updated_work_items (remote_serving (Inr [2, 3]) [])
      [titled 1 ''a'', titled 2 ''b'', titled 3 ''c'']) = [titled 2 ''b'', titled 3 ''c''] \<and>
   returned (get_updated_work_items (remote_serving (Inr [2, 3]) [])
      [titled 1 ''a'', titled 2 ''b'', titled 3 ''c'']) = [titled 2 ''b'', titled 3 ''c''] \<and>
   filter is_detail_call (events (get_updated_work_items (remote_serving (Inr [2, 3]) [])
      [titled 1 ''a'', titled 2 ''b'', titled 3 ''c''])) = [] \<and>
   filter is_db_write (events (get_updated_work_items (remote_serving (Inr [2, 3]) [])
      [titled 1 ''a'', titled 2 ''b'', titled 3 ''c''])) = []"
proof -
  have h: "set [2, 3] \<subseteq> load_ids_from_db [titled 1 ''a'', titled 2 ''b'', titled 3 ''c'']"
    by (simp add: load_ids_from_db_def)
  show ?thesis
    using h nothing_to_fetch_no_calls_no_writes [of "remote_serving (Inr [2, 3]) []" "[2, 3]"
        "[titled 1 ''a'', titled 2 ''b'', titled 3 ''c'']", OF _ h]
    by simp
qed

text \<open>
  C8. When the listing succeeds and has no identifier, the run deletes nothing and leaves
  the table as it is; its only effect is the listing request.
\<close>

theorem empty_listing_leaves_cache:
  "wiql_response rm = Inr [] \<Longrightarrow>
   cache (get_updated_work_items rm db) = db \<and>
   events (get_updated_work_items rm db) = [Wiql_post]"
  by (simp add: get_updated_work_items_def get_work_item_ids_from_devops_def)

theorem empty_listing_leaves_cache_witness:
  "wiql_response (remote_serving (Inr []) []) = Inr [] \<and>
   cache (get_updated_work_items (remote_serving (Inr []) []) [titled 1 ''a'', titled 2 ''b'']) =
     [titled 1 ''a'', titled 2 ''b''] \<and>
   events (get_updated_work_items (remote_serving (Inr []) []) [titled 1 ''a'', titled 2 ''b'']) =
     [Wiql_post]"
proof -
  have h: "wiql_response (remote_serving (Inr []) []) = Inr []"
    by simp
  show ?thesis
    using h empty_listing_leaves_cache [OF h, of "[titled 1 ''a'', titled 2 ''b'']"] by simp
qed

text \<open>
  C9. An identifier that is cached and listed is never fetched again: the run makes no
  detail request for it, and the row the cache holds for it afterwards is the row it held
  before, in every column.
\<close>

theorem cached_item_never_refetched:
  assumes "wiql_response rm = Inr R" and "i \<in> set R" and "i \<in> load_ids_from_db db"
  shows "lookup_row (cache (get_updated_work_items rm db)) i = lookup_row db i \<and>
         Workitem_get i \<notin> set (events (get_updated_work_items rm db))"
proof -
  from assms have R: "R \<noteq> []" by auto
  have "Workitem_get i \<notin> set (events (get_updated_work_items rm db))"
    unfolding run_events [OF assms(1) R] Let_def
    using assms(3) by (auto simp: details_events_get)
  with run_lookup_kept [OF assms] show ?thesis by simp
qed

theorem cached_item_never_refetched_witness:
  "workitem_response (remote_serving (Inr [3, 1]) []) 1 = Inr (answer 1 ''remote title'') \<and>
   lookup_row [titled 1 ''cached title''] 1 = Some (titled 1 ''cached title'') \<and>
   lookup_row (cache (get_updated_work_items (remote_serving (Inr [3, 1]) [])
      [titled 1 ''cached title''])) 1 = Some (titled 1 ''cached title'') \<and>
   Workitem_get 1 \<notin> set (events (get_updated_work_items (remote_serving (Inr [3, 1]) [])
      [titled 1 ''cached title'']))"
  using cached_item_never_refetched [of "remote_serving (Inr [3, 1]) []" "[3, 1]" 1
      "[titled 1 ''cached title'']"]
  by (simp add: load_ids_from_db_def lookup_row_def)

text \<open>
  C10. When the listing request fails or lists no identifier, the run returns the empty
  table, whatever the cache holds, and the cache keeps its rows.
\<close>

theorem no_listing_returns_empty_table:
  "isl (wiql_response rm) \<or> wiql_response rm = Inr [] \<Longrightarrow>
   returned (get_updated_work_items rm db) = [] \<and> cache (get_updated_work_items rm db) = db"
  by (auto simp add: get_updated_work_items_def get_work_item_ids_from_devops_def split: sum.splits)

theorem no_listing_returns_empty_table_witness:
  "isl (wiql_response (remote_serving (Inl (HTTPError 503)) [])) \<and>
   returned (get_updated_work_items (remote_serving (Inl (HTTPError 503)) []) [titled 1 ''a'']) = [] \<and>
   cache (get_updated_work_items (remote_serving (Inl (HTTPError 503)) []) [titled 1 ''a'']) =
     [titled 1 ''a'']"
proof -
  have h: "isl (wiql_response (remote_serving (Inl (HTTPError 503)) [])) \<or>
      wiql_response (remote_serving (Inl (HTTPError 503)) []) = Inr []"
    by simp
  show ?thesis
    using no_listing_returns_empty_table [OF h, of "[titled 1 ''a'']"] by simp
qed

section \<open>Further properties\<close>

text \<open>
  X1. The example of the specification: the cache holds 1, 2 and 3 and the listing is
  2, 3, 4. The run deletes 1, fetches 4 only, writes the rows 2 and 3 back as they are and
  inserts 4; the cache then holds 2, 3 and 4.
\<close>

theorem spec_example_run:
  "get_updated_work_items (remote_serving (Inr [2, 3, 4]) [])
     [titled 1 ''a'', titled 2 ''b'', titled 3 ''c''] =
   \<lparr> returned = [titled 2 ''b'', titled 3 ''c'', titled 4 ''remote title''],
     cache = [titled 2 ''b'', titled 3 ''c'', titled 4 ''remote title''],
     events = [Wiql_post, Db_delete {1}, Info_downloading 1, Workitem_get 4,
       Db_insert_or_replace (titled 2 ''b''), Db_insert_or_replace (titled 3 ''c''),
       Db_insert_or_replace (titled 4 ''remote title''), Placeholder_empty] \<rparr>"
  by (simp add: run_simps)

text \<open>
  X2. A run keeps the table well formed: one row for each \<open>Id\<close>, in ascending order of
  \<open>Id\<close>, whatever the remote service answers.
\<close>

theorem sync_keeps_table_ok:
  "table_ok db \<Longrightarrow> table_ok (cache (get_updated_work_items rm db))"
  by (rule run_table_ok)

theorem sync_keeps_table_ok_witness:
  "table_ok [titled 1 ''a'', titled 2 ''b'', titled 3 ''c''] \<and>
   table_ok (cache (get_updated_work_items (remote_serving (Inr [5, 4, 2, 6]) [4])
      [titled 1 ''a'', titled 2 ''b'', titled 3 ''c'']))"
proof -
  have h: "table_ok [titled 1 ''a'', titled 2 ''b'', titled 3 ''c'']"
    by (simp add: table_ok_def)
  show ?thesis
    using h sync_keeps_table_ok [OF h, of "remote_serving (Inr [5, 4, 2, 6]) [4]"] by simp
qed

text \<open>
  X3. When the listing succeeds with \<open>R\<close>, the run makes a detail request for exactly the
  identifiers of \<open>R\<close> that are not cached.
\<close>

theorem detail_requests_are_new_ids:
  "wiql_response rm = Inr R \<Longrightarrow>
   Workitem_get i \<in> set (events (get_updated_work_items rm db)) \<longleftrightarrow>
     i \<in> set R \<and> i \<notin> load_ids_from_db db"
  by (rule run_detail_calls)

theorem detail_requests_are_new_ids_witness:
  "wiql_response (remote_serving (Inr [2, 3, 4]) []) = Inr [2, 3, 4] \<and>
   Workitem_get 4 \<in> set (events (get_updated_work_items (remote_serving (Inr [2, 3, 4]) [])
      [titled 1 ''a'', titled 2 ''b'', titled 3 ''c'']))"
proof -
  have h: "wiql_response (remote_serving (Inr [2, 3, 4]) []) = Inr [2, 3, 4]"
    by simp
  show ?thesis
    using h detail_requests_are_new_ids [OF h, of 4 "[titled 1 ''a'', titled 2 ''b'', titled 3 ''c'']"]
    by (simp add: load_ids_from_db_def)
qed

text \<open>
  X4. An identifier whose detail request failed is asked for again by the next run: it
  is listed and still not cached.
\<close>

theorem failed_fetch_retried_next_run:
  assumes "wiql_response rm = Inr R"
    and "j \<in> set R" and "j \<notin> load_ids_from_db db" and "workitem_response rm j = Inl e"
    and "\<forall>i\<in>set R - load_ids_from_db db - {j}. fetch_ok rm i"
  shows "Workitem_get j \<in>
    set (events (get_updated_work_items rm (cache (get_updated_work_items rm db))))"
  using assms(2) by (simp add: run_detail_calls [OF assms(1)] run_ids_one_failed [OF assms])

theorem failed_fetch_retried_next_run_witness:
  "workitem_response (remote_serving (Inr [5, 4, 2, 6]) [4]) 4 = Inl (HTTPError 500) \<and>
   Workitem_get 4 \<in> set (events (get_updated_work_items (remote_serving (Inr [5, 4, 2, 6]) [4])
      (cache (get_updated_work_items (remote_serving (Inr [5, 4, 2, 6]) [4])
        [titled 1 ''a'', titled 2 ''b'']))))"
proof -
  have h: "\<forall>i\<in>set [5, 4, 2, 6] - load_ids_from_db [titled 1 ''a'', titled 2 ''b''] - {4}.
      fetch_ok (remote_serving (Inr [5, 4, 2, 6]) [4]) i"
    by (simp add: load_ids_from_db_def fetch_ok_def)
  have w: "workitem_response (remote_serving (Inr [5, 4, 2, 6]) [4]) 4 = Inl (HTTPError 500)"
    by simp
  show ?thesis
    using w failed_fetch_retried_next_run [of "remote_serving (Inr [5, 4, 2, 6]) [4]"
        "[5, 4, 2, 6]" 4 "[titled 1 ''a'', titled 2 ''b'']" "HTTPError 500", OF _ _ _ w h]
    by (simp add: load_ids_from_db_def)
qed

end
